theory Spec2Isabelle
  imports Main
begin

section \<open>JavaScript values as the webhook handler sees them\<close>

text \<open>
  The handler of \<^verbatim>\<open>app.post('/github', ...)\<close> reads three request headers, the raw body
  captured by the body parser, the parsed JSON payload and two environment variables.

  A JavaScript string is represented by its UTF-8 encoding, a \<^typ>\<open>string\<close> whose
  characters are bytes. With this representation \<^verbatim>\<open>Buffer.from(s)\<close> (UTF-8 by default) is
  the identity, the byte length of the buffer is \<^const>\<open>length\<close>, and the \<^verbatim>\<open>length\<close>
  property of the string (UTF-16 code units) is computed by \<open>utf16_length\<close> below.

  An object is given by the list of its own properties, each name once; an array by the
  list of its elements.

  A number parsed from JSON is either \<open>JInt n\<close>, an integer that \<^verbatim>\<open>String\<close> prints in
  decimal (every array and string length is one), or \<open>JDouble s\<close>, any other number,
  given by the text \<^verbatim>\<open>String\<close> prints for it. Such a number is never zero, so it is truthy.
\<close>

datatype jsval =
    JUndefined
  | JNull
  | JBool bool
  | JInt int
  | JDouble string
  | JStr string
  | JArr "jsval list"
  | JObj "(string \<times> jsval) list"

datatype js_error = TypeError | RangeError

definition utf16_length :: "string \<Rightarrow> nat" where
  "utf16_length s =
     length (filter (\<lambda>c. (of_char c :: nat) div 64 \<noteq> 2) s)
     + length (filter (\<lambda>c. 240 \<le> (of_char c :: nat)) s)"

definition nullish :: "jsval \<Rightarrow> bool" where
  "nullish v = (v = JUndefined \<or> v = JNull)"

text \<open>
  \<^verbatim>\<open>v.k\<close> for the property names the handler uses. None of them is an array index or a
  member of a built-in prototype, so on an object the result is the own property or
  \<^verbatim>\<open>undefined\<close>; arrays and strings own \<^verbatim>\<open>length\<close>; reading a property of
  \<^verbatim>\<open>undefined\<close> or \<^verbatim>\<open>null\<close> throws a TypeError.
\<close>

fun get :: "jsval \<Rightarrow> string \<Rightarrow> js_error + jsval" where
  "get JUndefined k = Inl TypeError"
| "get JNull k = Inl TypeError"
| "get (JObj kvs) k = Inr (case map_of kvs k of None \<Rightarrow> JUndefined | Some v \<Rightarrow> v)"
| "get (JArr xs) k = Inr (if k = ''length'' then JInt (int (length xs)) else JUndefined)"
| "get (JStr s) k = Inr (if k = ''length'' then JInt (int (utf16_length s)) else JUndefined)"
| "get (JBool b) k = Inr JUndefined"
| "get (JInt n) k = Inr JUndefined"
| "get (JDouble s) k = Inr JUndefined"

text \<open>\<^verbatim>\<open>v?.k\<close>: \<^verbatim>\<open>undefined\<close> when \<open>v\<close> is \<^verbatim>\<open>undefined\<close> or \<^verbatim>\<open>null\<close>.\<close>

definition optget :: "jsval \<Rightarrow> string \<Rightarrow> js_error + jsval" where
  "optget v k = (if nullish v then Inr JUndefined else get v k)"

fun truthy :: "jsval \<Rightarrow> bool" where
  "truthy JUndefined = False"
| "truthy JNull = False"
| "truthy (JBool b) = b"
| "truthy (JInt n) = (n \<noteq> 0)"
| "truthy (JDouble s) = True"
| "truthy (JStr s) = (s \<noteq> [])"
| "truthy (JArr xs) = True"
| "truthy (JObj kvs) = True"

text \<open>\<^verbatim>\<open>a || b\<close> on values.\<close>

definition or_else :: "jsval \<Rightarrow> jsval \<Rightarrow> jsval" where
  "or_else a b = (if truthy a then a else b)"

definition and_then :: "'e + 'a \<Rightarrow> ('a \<Rightarrow> 'e + 'b) \<Rightarrow> 'e + 'b" where
  "and_then r f = (case r of Inl e \<Rightarrow> Inl e | Inr x \<Rightarrow> f x)"

subsection \<open>String conversion in template literals\<close>

fun show_nat :: "nat \<Rightarrow> string" where
  "show_nat n =
     (if n < 10 then [''0123456789'' ! n]
      else show_nat (n div 10) @ [''0123456789'' ! (n mod 10)])"

declare show_nat.simps [simp del]

definition show_int :: "int \<Rightarrow> string" where
  "show_int i = (if i < 0 then ''-'' @ show_nat (nat (- i)) else show_nat (nat i))"

text \<open>
  \<^verbatim>\<open>`${v}`\<close> applies ToString. An array is joined with commas, \<^verbatim>\<open>undefined\<close> and
  \<^verbatim>\<open>null\<close> elements printing as the empty string. An object parsed from JSON prints as
  \<^verbatim>\<open>[object Object]\<close> through \<^verbatim>\<open>Object.prototype.toString\<close>, unless it has an own
  property \<^verbatim>\<open>toString\<close>: that property is not callable, \<^verbatim>\<open>valueOf\<close> returns no
  primitive, and the conversion throws a TypeError.
\<close>

fun ToString :: "jsval \<Rightarrow> js_error + string"
  and join :: "jsval list \<Rightarrow> js_error + string" where
  "ToString JUndefined = Inr ''undefined''"
| "ToString JNull = Inr ''null''"
| "ToString (JBool b) = Inr (if b then ''true'' else ''false'')"
| "ToString (JInt n) = Inr (show_int n)"
| "ToString (JDouble s) = Inr s"
| "ToString (JStr s) = Inr s"
| "ToString (JArr xs) = join xs"
| "ToString (JObj kvs) =
     (if map_of kvs ''toString'' = None then Inr ''[object Object]'' else Inl TypeError)"
| "join [] = Inr []"
| "join (x # xs) =
     (case (if nullish x then Inr [] else ToString x) of
        Inl e \<Rightarrow> Inl e
      | Inr s \<Rightarrow>
          (if xs = [] then Inr s
           else (case join xs of Inl e \<Rightarrow> Inl e | Inr t \<Rightarrow> Inr (s @ '','' @ t))))"

text \<open>
  The values whose conversion cannot throw: no object with an own property
  \<^verbatim>\<open>toString\<close>, directly or as an element of an array at any depth.
\<close>

fun no_own_toString :: "jsval \<Rightarrow> bool" where
  "no_own_toString (JArr xs) = list_all no_own_toString xs"
| "no_own_toString (JObj kvs) = (map_of kvs ''toString'' = None)"
| "no_own_toString v = True"

section \<open>Signature validation\<close>

text \<open>
  \<^verbatim>\<open>crypto.createHmac('sha256', key).update(data).digest()\<close> is the library's; the
  development takes it as a parameter \<open>hmac\<close> from key and data to the digest bytes and
  holds for every such function. \<^verbatim>\<open>digest('hex')\<close> is its lower-case hexadecimal text.
\<close>

type_synonym hmac_fn = "string \<Rightarrow> string \<Rightarrow> string"

definition hex_byte :: "char \<Rightarrow> string" where
  "hex_byte c =
     [''0123456789abcdef'' ! ((of_char c :: nat) div 16),
      ''0123456789abcdef'' ! ((of_char c :: nat) mod 16)]"

definition hex :: "string \<Rightarrow> string" where
  "hex bs = concat (map hex_byte bs)"

text \<open>
  Lines 101 to 103. \<^verbatim>\<open>createHmac\<close> throws a TypeError when the key is \<^verbatim>\<open>undefined\<close>
  (\<^verbatim>\<open>GITHUB_SECRET\<close> not set), \<^verbatim>\<open>update\<close> throws one when \<^verbatim>\<open>req.rawBody\<close> is
  \<^verbatim>\<open>undefined\<close> (the JSON body parser did not read a body).
\<close>

definition expectedSig :: "hmac_fn \<Rightarrow> string option \<Rightarrow> string option \<Rightarrow> js_error + string" where
  "expectedSig hmac secret rawBody =
     (case secret of
        None \<Rightarrow> Inl TypeError
      | Some key \<Rightarrow>
          (case rawBody of
             None \<Rightarrow> Inl TypeError
           | Some buf \<Rightarrow> Inr (''sha256='' @ hex (hmac key buf))))"

text \<open>\<^verbatim>\<open>crypto.timingSafeEqual\<close> throws a RangeError on buffers of different byte length.\<close>

definition timingSafeEqual :: "string \<Rightarrow> string \<Rightarrow> js_error + bool" where
  "timingSafeEqual a b = (if length a = length b then Inr (a = b) else Inl RangeError)"

text \<open>
  Lines 101 to 105: the value of the comparison, for a header that is present. This is
  the \<^verbatim>\<open>verify\<close> of the specification, not the hook of that name of the body parser.
\<close>

definition verify_signature ::
  "hmac_fn \<Rightarrow> string option \<Rightarrow> string option \<Rightarrow> string \<Rightarrow> js_error + bool" where
  "verify_signature hmac secret rawBody sigHeader =
     and_then (expectedSig hmac secret rawBody) (\<lambda>expected. timingSafeEqual sigHeader expected)"

section \<open>Formatting the message\<close>

text \<open>
  A template literal is the concatenation of its literal chunks and of the string
  conversions of its expressions, evaluated from left to right; the first expression
  that throws ends the evaluation.
\<close>

fun template :: "(js_error + string) list \<Rightarrow> js_error + string" where
  "template [] = Inr []"
| "template (p # ps) =
     (case p of
        Inl e \<Rightarrow> Inl e
      | Inr s \<Rightarrow> (case template ps of Inl e \<Rightarrow> Inl e | Inr t \<Rightarrow> Inr (s @ t)))"

text \<open>\<^verbatim>\<open>${e}\<close>: the value of the expression, converted to a string.\<close>

definition interp :: "js_error + jsval \<Rightarrow> js_error + string" where
  "interp e = and_then e ToString"

text \<open>\<^verbatim>\<open>payload.commits?.length || 0\<close>\<close>

definition commits_length :: "jsval \<Rightarrow> js_error + jsval" where
  "commits_length payload =
     and_then (get payload ''commits'') (\<lambda>commits.
     and_then (optget commits ''length'') (\<lambda>n. Inr (or_else n (JInt 0))))"

text \<open>\<^verbatim>\<open>payload.pusher?.name || 'unknown'\<close>\<close>

definition pusher_name :: "jsval \<Rightarrow> js_error + jsval" where
  "pusher_name payload =
     and_then (get payload ''pusher'') (\<lambda>pusher.
     and_then (optget pusher ''name'') (\<lambda>n. Inr (or_else n (JStr ''unknown''))))"

text \<open>\<^verbatim>\<open>payload.a.b\<close>\<close>

definition get2 :: "jsval \<Rightarrow> string \<Rightarrow> string \<Rightarrow> js_error + jsval" where
  "get2 payload a b = and_then (get payload a) (\<lambda>v. get v b)"

text \<open>Line 129.\<close>

definition push_message :: "jsval \<Rightarrow> js_error + string" where
  "push_message payload = template
     [Inr ''**Push Event**: '', interp (commits_length payload),
      Inr '' commits pushed to '', interp (get payload ''ref''),
      Inr '' by '', interp (pusher_name payload),
      Inr ''. Compare: '', interp (get payload ''compare'')]"

text \<open>Line 138. \<open>CHR 0x22\<close> is the double quote.\<close>

definition pull_request_message :: "jsval \<Rightarrow> js_error + string" where
  "pull_request_message payload = template
     [Inr ''**Pull Request '', interp (get payload ''action''),
      Inr ''**: #'', interp (get payload ''number''),
      Inr ('' '' @ [CHR 0x22]), interp (get2 payload ''pull_request'' ''title''),
      Inr ([CHR 0x22] @ '' by ''), interp (get2 payload ''sender'' ''login''),
      Inr ''. URL: '', interp (get2 payload ''pull_request'' ''html_url'')]"

text \<open>Line 148.\<close>

definition issues_message :: "jsval \<Rightarrow> js_error + string" where
  "issues_message payload = template
     [Inr ''**Issue '', interp (get payload ''action''),
      Inr ''**: #'', interp (get2 payload ''issue'' ''number''),
      Inr ('' '' @ [CHR 0x22]), interp (get2 payload ''issue'' ''title''),
      Inr ([CHR 0x22] @ '' by ''), interp (get2 payload ''sender'' ''login''),
      Inr ''. URL: '', interp (get2 payload ''issue'' ''html_url'')]"

text \<open>
  The \<^verbatim>\<open>switch (event)\<close> of lines 127 to 164: the message of a supported event,
  \<open>None\<close> in the \<^verbatim>\<open>default\<close> branch, which answers without a message.
\<close>

definition format_message :: "string option \<Rightarrow> jsval \<Rightarrow> js_error + string option" where
  "format_message event payload =
     (if event = Some ''push'' then and_then (push_message payload) (\<lambda>m. Inr (Some m))
      else if event = Some ''pull_request'' then
        and_then (pull_request_message payload) (\<lambda>m. Inr (Some m))
      else if event = Some ''issues'' then and_then (issues_message payload) (\<lambda>m. Inr (Some m))
      else Inr None)"

section \<open>The webhook handler\<close>

record env =
  GITHUB_SECRET :: "string option"
  ROOM_ID :: "string option"

text \<open>
  The request: the headers \<^verbatim>\<open>x-github-event\<close> and \<^verbatim>\<open>x-hub-signature-256\<close>
  (\<open>None\<close> when absent), \<^verbatim>\<open>req.rawBody\<close> (\<open>None\<close> when the body parser's
  \<^verbatim>\<open>verify\<close> hook did not run) and \<^verbatim>\<open>req.body\<close>.
\<close>

record request =
  x_github_event :: "string option"
  x_hub_signature_256 :: "string option"
  rawBody :: "string option"
  body :: jsval

text \<open>
  What one call of the handler does: it sends a response, or it throws (the promise of
  the \<^verbatim>\<open>async\<close> handler rejects and no response is sent); the calls of
  \<^verbatim>\<open>webex.messages.create\<close> it made, each with its \<^verbatim>\<open>roomId\<close> and \<^verbatim>\<open>markdown\<close>; and
  the lines it wrote to the console.
\<close>

datatype outcome = Responded nat string | Faulted js_error

datatype log_line =
    Incoming_request
  | Missing_signature
  | Invalid_signature
  | Signature_validated
  | Processing_event
  | Event_details
  | Unhandled_event
  | Sending_message
  | Message_posted
  | Error_posting
  | Processing_completed
  | JSON_parsing_error

record result =
  outcome :: outcome
  relay_calls :: "(string option \<times> string) list"
  console :: "log_line list"

text \<open>
  \<^verbatim>\<open>webex.messages.create\<close> belongs to the chat SDK, which \<^verbatim>\<open>framework.webex\<close>
  holds once the framework has started: \<open>create roomId markdown\<close> tells whether the
  promise of the call resolves. A rejection is caught by the \<^verbatim>\<open>try\<close> of line 173 and
  written to the console.
\<close>

type_synonym relay_fn = "string option \<Rightarrow> string \<Rightarrow> bool"

text \<open>Lines 116 to 202: the request has passed the signature check.\<close>

definition handle_event :: "relay_fn \<Rightarrow> env \<Rightarrow> request \<Rightarrow> result" where
  "handle_event create e req =
     (case get (body req) ''action'' of
        Inl err \<Rightarrow>
          \<lparr>outcome = Faulted err, relay_calls = [],
           console = [Incoming_request, Signature_validated]\<rparr>
      | Inr action \<Rightarrow>
          (case format_message (x_github_event req) (body req) of
             Inl err \<Rightarrow>
               \<lparr>outcome = Faulted err, relay_calls = [],
                console = [Incoming_request, Signature_validated, Processing_event]\<rparr>
           | Inr None \<Rightarrow>
               \<lparr>outcome = Responded 200 ''Event received'', relay_calls = [],
                console = [Incoming_request, Signature_validated, Processing_event,
                           Unhandled_event]\<rparr>
           | Inr (Some message) \<Rightarrow>
               \<lparr>outcome = Responded 200 ''Event processed'',
                relay_calls = [(ROOM_ID e, message)],
                console = [Incoming_request, Signature_validated, Processing_event,
                           Event_details, Sending_message,
                           (if create (ROOM_ID e) message then Message_posted
                            else Error_posting),
                           Processing_completed]\<rparr>))"

text \<open>Lines 82 to 203.\<close>

definition github_handler :: "hmac_fn \<Rightarrow> relay_fn \<Rightarrow> env \<Rightarrow> request \<Rightarrow> result" where
  "github_handler hmac create e req =
     (case x_hub_signature_256 req of
        None \<Rightarrow>
          \<lparr>outcome = Responded 401 ''Signature missing'', relay_calls = [],
           console = [Incoming_request, Missing_signature]\<rparr>
      | Some sigHeader \<Rightarrow>
          (if sigHeader = [] then
             \<lparr>outcome = Responded 401 ''Signature missing'', relay_calls = [],
              console = [Incoming_request, Missing_signature]\<rparr>
           else
             (case verify_signature hmac (GITHUB_SECRET e) (rawBody req) sigHeader of
                Inl err \<Rightarrow>
                  \<lparr>outcome = Faulted err, relay_calls = [], console = [Incoming_request]\<rparr>
              | Inr False \<Rightarrow>
                  \<lparr>outcome = Responded 401 ''Invalid signature'', relay_calls = [],
                   console = [Incoming_request, Invalid_signature]\<rparr>
              | Inr True \<Rightarrow> handle_event create e req)))"

subsection \<open>The middleware in front of the handler\<close>

text \<open>
  Lines 8 to 26. \<^verbatim>\<open>bodyParser.json\<close> belongs to a library: its outcome for a request is
  taken as given. For a body that is not JSON it raises a SyntaxError of status 400
  with a \<^verbatim>\<open>body\<close> property, and the error middleware of line 14 answers
  \<^verbatim>\<open>res.status(400).json({ error: 'Invalid JSON payload' })\<close>, so the handler does not
  run. In every other case (the body was parsed, the parser skipped the request, or it
  raised another error, on which line 25 calls \<^verbatim>\<open>next()\<close>) the request goes on to the
  handler.
\<close>

datatype body_parser_outcome = Invalid_JSON | Passed_on

definition post_github ::
  "hmac_fn \<Rightarrow> relay_fn \<Rightarrow> env \<Rightarrow> body_parser_outcome \<Rightarrow> request \<Rightarrow> result" where
  "post_github hmac create e parsed req =
     (case parsed of
        Invalid_JSON \<Rightarrow>
          \<lparr>outcome = Responded 400
             (''{'' @ [CHR 0x22] @ ''error'' @ [CHR 0x22] @ '':'' @ [CHR 0x22]
              @ ''Invalid JSON payload'' @ [CHR 0x22] @ ''}''),
           relay_calls = [], console = [JSON_parsing_error]\<rparr>
      | Passed_on \<Rightarrow> github_handler hmac create e req)"

section \<open>Auxiliary facts\<close>

lemma length_hex: "length (hex bs) = 2 * length bs"
  by (induction bs) (simp_all add: hex_def hex_byte_def)

lemma verify_signature_Some:
  "verify_signature hmac (Some K) (Some B) s =
     (if length s = 7 + 2 * length (hmac K B) then Inr (s = ''sha256='' @ hex (hmac K B))
      else Inl RangeError)"
  by (simp add: verify_signature_def expectedSig_def timingSafeEqual_def and_then_def
      length_hex)

lemma verify_signature_nonempty:
  "verify_signature hmac secret raw s = Inr True \<Longrightarrow> s \<noteq> []"
  by (auto simp: verify_signature_def expectedSig_def timingSafeEqual_def and_then_def
      split: option.splits if_splits)

lemma github_handler_valid:
  assumes "x_hub_signature_256 req = Some s"
    and "verify_signature hmac (GITHUB_SECRET e) (rawBody req) s = Inr True"
  shows "github_handler hmac create e req = handle_event create e req"
  using assms verify_signature_nonempty [OF assms(2)] by (simp add: github_handler_def)

lemma show_nat_digit: "n < 10 \<Longrightarrow> show_nat n = [''0123456789'' ! n]"
  by (simp add: show_nat.simps)

lemma or_else_length: "ToString (or_else (JInt (int n)) (JInt 0)) = Inr (show_nat n)"
  by (simp add: or_else_def show_int_def show_nat_digit)

subsection \<open>Property access and string conversion throw TypeError only\<close>

lemma get_not_RangeError: "get v k \<noteq> Inl RangeError"
  by (cases v) simp_all

lemma get_not_nullish: "\<not> nullish v \<Longrightarrow> \<exists>w. get v k = Inr w"
  by (cases v) (simp_all add: nullish_def)

lemma get_Inr_not_nullish: "get v k = Inr w \<Longrightarrow> \<not> nullish v"
  by (cases v) (simp_all add: nullish_def)

lemma ToString_join_not_RangeError:
  "ToString v \<noteq> Inl RangeError" "join vs \<noteq> Inl RangeError"
proof (induction v and vs rule: ToString_join.induct)
  case (10 x xs)
  show ?case
  proof (cases "if nullish x then Inr [] else ToString x")
    case (Inl e)
    with 10(1) show ?thesis by (auto split: if_splits)
  next
    case (Inr s)
    with 10(2) show ?thesis by (auto split: sum.splits)
  qed
qed simp_all

lemma ToString_join_no_own_toString:
  "no_own_toString v \<Longrightarrow> \<exists>s. ToString v = Inr s"
  "list_all no_own_toString vs \<Longrightarrow> \<exists>s. join vs = Inr s"
proof (induction v and vs rule: ToString_join.induct)
  case (10 x xs)
  from 10(3) have x: "no_own_toString x" and xs: "list_all no_own_toString xs" by simp_all
  from 10(1) x obtain s where s: "(if nullish x then Inr [] else ToString x) = Inr s"
    by (cases "nullish x") auto
  show ?case
  proof (cases "xs = []")
    case True
    with s show ?thesis by simp
  next
    case False
    with 10(2) [OF s] xs obtain t where "join xs = Inr t" by blast
    with s False show ?thesis by simp
  qed
qed simp_all

lemma interp_not_RangeError: "x \<noteq> Inl RangeError \<Longrightarrow> interp x \<noteq> Inl RangeError"
  by (cases x) (simp_all add: interp_def and_then_def ToString_join_not_RangeError)

lemma interp_no_own_toString:
  "x = Inr v \<Longrightarrow> no_own_toString v \<Longrightarrow> \<exists>s. interp x = Inr s"
  using ToString_join_no_own_toString(1) [of v] by (simp add: interp_def and_then_def)

lemma interp_get_Inr: "interp (get p k) = Inr s \<Longrightarrow> \<exists>a. get p ''action'' = Inr a"
  by (cases p) (simp_all add: interp_def and_then_def)

lemma get2_not_RangeError: "get2 p a b \<noteq> Inl RangeError"
  using get_not_RangeError [of p a]
  by (cases "get p a") (auto simp: get2_def and_then_def get_not_RangeError)

lemma get2_undefined: "get p a = Inr JUndefined \<Longrightarrow> get2 p a b = Inl TypeError"
  by (simp add: get2_def and_then_def)

subsection \<open>Templates\<close>

lemma template_fault:
  "Inl TypeError \<in> set ps \<Longrightarrow> Inl RangeError \<notin> set ps \<Longrightarrow> template ps = Inl TypeError"
proof (induction ps)
  case Nil
  then show ?case by simp
next
  case (Cons p ps)
  show ?case
  proof (cases p)
    case (Inl e)
    with Cons.prems show ?thesis by (cases e) auto
  next
    case (Inr s)
    with Cons show ?thesis by (auto split: sum.splits)
  qed
qed

lemma template_Inr_parts: "template ps = Inr m \<Longrightarrow> p \<in> set ps \<Longrightarrow> \<exists>s. p = Inr s"
  by (induction ps arbitrary: m) (auto split: sum.splits)

lemma pull_request_fault:
  assumes "get p ''pull_request'' = Inr JUndefined \<or> get p ''sender'' = Inr JUndefined"
  shows "pull_request_message p = Inl TypeError"
  unfolding pull_request_message_def
proof (rule template_fault)
  from assms
  have "get2 p ''pull_request'' ''title'' = Inl TypeError
      \<or> get2 p ''sender'' ''login'' = Inl TypeError"
    by (auto simp: get2_undefined)
  then show "Inl TypeError \<in> set
     [Inr ''**Pull Request '', interp (get p ''action''),
      Inr ''**: #'', interp (get p ''number''),
      Inr ('' '' @ [CHR 0x22]), interp (get2 p ''pull_request'' ''title''),
      Inr ([CHR 0x22] @ '' by ''), interp (get2 p ''sender'' ''login''),
      Inr ''. URL: '', interp (get2 p ''pull_request'' ''html_url'')]"
    by (auto simp: interp_def and_then_def)
next
  show "Inl RangeError \<notin> set
     [Inr ''**Pull Request '', interp (get p ''action''),
      Inr ''**: #'', interp (get p ''number''),
      Inr ('' '' @ [CHR 0x22]), interp (get2 p ''pull_request'' ''title''),
      Inr ([CHR 0x22] @ '' by ''), interp (get2 p ''sender'' ''login''),
      Inr ''. URL: '', interp (get2 p ''pull_request'' ''html_url'')]"
    using interp_not_RangeError [OF get_not_RangeError]
      interp_not_RangeError [OF get2_not_RangeError]
    by (simp add: eq_commute)
qed

lemma issues_fault:
  assumes "get p ''issue'' = Inr JUndefined \<or> get p ''sender'' = Inr JUndefined"
  shows "issues_message p = Inl TypeError"
  unfolding issues_message_def
proof (rule template_fault)
  from assms
  have "get2 p ''issue'' ''number'' = Inl TypeError
      \<or> get2 p ''sender'' ''login'' = Inl TypeError"
    by (auto simp: get2_undefined)
  then show "Inl TypeError \<in> set
     [Inr ''**Issue '', interp (get p ''action''),
      Inr ''**: #'', interp (get2 p ''issue'' ''number''),
      Inr ('' '' @ [CHR 0x22]), interp (get2 p ''issue'' ''title''),
      Inr ([CHR 0x22] @ '' by ''), interp (get2 p ''sender'' ''login''),
      Inr ''. URL: '', interp (get2 p ''issue'' ''html_url'')]"
    by (auto simp: interp_def and_then_def)
next
  show "Inl RangeError \<notin> set
     [Inr ''**Issue '', interp (get p ''action''),
      Inr ''**: #'', interp (get2 p ''issue'' ''number''),
      Inr ('' '' @ [CHR 0x22]), interp (get2 p ''issue'' ''title''),
      Inr ([CHR 0x22] @ '' by ''), interp (get2 p ''sender'' ''login''),
      Inr ''. URL: '', interp (get2 p ''issue'' ''html_url'')]"
    using interp_not_RangeError [OF get_not_RangeError]
      interp_not_RangeError [OF get2_not_RangeError]
    by (simp add: eq_commute)
qed

text \<open>A message is formatted only from a payload whose properties can be read.\<close>

lemma format_message_Some_action:
  assumes "format_message ev p = Inr (Some m)"
  shows "\<exists>a. get p ''action'' = Inr a"
proof -
  have "\<exists>k s. interp (get p k) = Inr s"
  proof -
    consider (push) "push_message p = Inr m" | (pr) "pull_request_message p = Inr m"
      | (issues) "issues_message p = Inr m"
      using assms by (auto simp: format_message_def and_then_def split: if_splits sum.splits)
    then show ?thesis
    proof cases
      case push
      from template_Inr_parts [OF push [unfolded push_message_def],
          of "interp (get p ''ref'')"]
      show ?thesis by auto
    next
      case pr
      from template_Inr_parts [OF pr [unfolded pull_request_message_def],
          of "interp (get p ''action'')"]
      show ?thesis by auto
    next
      case issues
      from template_Inr_parts [OF issues [unfolded issues_message_def],
          of "interp (get p ''action'')"]
      show ?thesis by auto
    qed
  qed
  then show ?thesis using interp_get_Inr by blast
qed

section \<open>Properties\<close>

subsection \<open>Signature validation\<close>

text \<open>
  C1. For every body \<open>B\<close> and secret \<open>K\<close>, verifying \<open>B\<close> against the header
  \<^verbatim>\<open>"sha256=" + hex(HMAC-SHA256(K, B))\<close> with key \<open>K\<close> succeeds: the comparison of
  line 105 returns \<^verbatim>\<open>true\<close>, and the handler goes on to handle the event.
\<close>

theorem verify_accepts_expected:
  "verify_signature hmac (Some K) (Some B) (''sha256='' @ hex (hmac K B)) = Inr True
   \<and> github_handler hmac create \<lparr>GITHUB_SECRET = Some K, ROOM_ID = room\<rparr>
        \<lparr>x_github_event = ev, x_hub_signature_256 = Some (''sha256='' @ hex (hmac K B)),
         rawBody = Some B, body = payload\<rparr>
     = handle_event create \<lparr>GITHUB_SECRET = Some K, ROOM_ID = room\<rparr>
        \<lparr>x_github_event = ev, x_hub_signature_256 = Some (''sha256='' @ hex (hmac K B)),
         rawBody = Some B, body = payload\<rparr>"
  by (simp add: verify_signature_Some github_handler_def length_hex)

text \<open>
  C2. A signature header whose length differs from that of the expected value is not
  answered with \<^verbatim>\<open>false\<close>: \<^verbatim>\<open>crypto.timingSafeEqual\<close> throws a RangeError, for every
  digest function, secret and body, and the handler sends no response. The header
  \<^verbatim>\<open>sha256=0\<close> has 8 bytes, the expected value an odd number of them.
\<close>

theorem verify_throws_on_length_mismatch:
  "verify_signature hmac (Some K) (Some B) ''sha256=0'' = Inl RangeError
   \<and> github_handler hmac create \<lparr>GITHUB_SECRET = Some K, ROOM_ID = room\<rparr>
        \<lparr>x_github_event = ev, x_hub_signature_256 = Some ''sha256=0'',
         rawBody = Some B, body = payload\<rparr>
     = \<lparr>outcome = Faulted RangeError, relay_calls = [], console = [Incoming_request]\<rparr>"
  by (simp add: verify_signature_Some github_handler_def)

text \<open>
  C7, as stated, fails in two ways. A request without signature header whose body is not
  JSON is answered 400 by the error middleware, before the handler looks at the
  header. And a header that is present and empty does not match the expected value,
  yet the answer is \<^verbatim>\<open>Signature missing\<close>, since line 96 tests the header for
  truthiness.
\<close>

theorem signature_rejections_counterexample:
  "outcome (post_github (\<lambda>key data. key @ data) (\<lambda>room markdown. True)
      \<lparr>GITHUB_SECRET = Some ''k'', ROOM_ID = Some ''r''\<rparr> Invalid_JSON
      \<lparr>x_github_event = Some ''push'', x_hub_signature_256 = None,
       rawBody = Some ''{'', body = JObj []\<rparr>)
     = Responded 400 (''{'' @ [CHR 0x22] @ ''error'' @ [CHR 0x22] @ '':'' @ [CHR 0x22]
                      @ ''Invalid JSON payload'' @ [CHR 0x22] @ ''}'')
   \<and> outcome (post_github (\<lambda>key data. key @ data) (\<lambda>room markdown. True)
      \<lparr>GITHUB_SECRET = Some ''k'', ROOM_ID = Some ''r''\<rparr> Passed_on
      \<lparr>x_github_event = Some ''push'', x_hub_signature_256 = Some [],
       rawBody = Some ''{}'', body = JObj []\<rparr>) = Responded 401 ''Signature missing''"
  by (simp add: post_github_def github_handler_def)

text \<open>
  C7, amended. For every POST to /github that the body parser passes on to the handler
  (its body is not rejected as invalid JSON), an absent or empty
  \<^verbatim>\<open>x-hub-signature-256\<close> header yields HTTP 401 with body \<^verbatim>\<open>Signature missing\<close>. With
  the secret set and the raw body captured, a header that has the byte length of the
  expected value and differs from it yields HTTP 401 with body
  \<^verbatim>\<open>Invalid signature\<close>. The two responses differ.
\<close>

theorem signature_rejections:
  assumes "length s = length (''sha256='' @ hex (hmac K B))"
    and "s \<noteq> ''sha256='' @ hex (hmac K B)"
  shows "outcome (post_github hmac create e Passed_on (req\<lparr>x_hub_signature_256 := None\<rparr>))
           = Responded 401 ''Signature missing''
       \<and> outcome (post_github hmac create e Passed_on (req\<lparr>x_hub_signature_256 := Some []\<rparr>))
           = Responded 401 ''Signature missing''
       \<and> outcome (post_github hmac create (e\<lparr>GITHUB_SECRET := Some K\<rparr>) Passed_on
                    (req\<lparr>x_hub_signature_256 := Some s, rawBody := Some B\<rparr>))
           = Responded 401 ''Invalid signature''
       \<and> Responded 401 ''Signature missing'' \<noteq> Responded 401 ''Invalid signature''"
proof -
  from assms(1) have "s \<noteq> []" by auto
  with assms show ?thesis
    by (simp add: post_github_def github_handler_def verify_signature_Some length_hex)
qed

text \<open>
  An instance: the digest function is concatenation, so the expected value of key \<open>k\<close>
  and body \<open>{}\<close> is \<^verbatim>\<open>sha256=6b7b7d\<close>, and the header differs in its last digit.
\<close>

theorem signature_rejections_witness:
  "length ''sha256=6b7b7e'' = length (''sha256='' @ hex ((\<lambda>key data. key @ data) ''k'' ''{}''))
   \<and> ''sha256=6b7b7e'' \<noteq> ''sha256='' @ hex ((\<lambda>key data. key @ data) ''k'' ''{}'')
   \<and> outcome (post_github (\<lambda>key data. key @ data) (\<lambda>room markdown. True)
        \<lparr>GITHUB_SECRET = Some ''k'', ROOM_ID = Some ''r''\<rparr> Passed_on
        \<lparr>x_github_event = Some ''push'', x_hub_signature_256 = None,
         rawBody = Some ''{}'', body = JObj []\<rparr>) = Responded 401 ''Signature missing''
   \<and> outcome (post_github (\<lambda>key data. key @ data) (\<lambda>room markdown. True)
        \<lparr>GITHUB_SECRET = Some ''k'', ROOM_ID = Some ''r''\<rparr> Passed_on
        \<lparr>x_github_event = Some ''push'', x_hub_signature_256 = Some ''sha256=6b7b7e'',
         rawBody = Some ''{}'', body = JObj []\<rparr>) = Responded 401 ''Invalid signature''"
  using signature_rejections
    [of "''sha256=6b7b7e''" "\<lambda>key data. key @ data" "''k''" "''{}''"
        "\<lambda>room markdown. True" "\<lparr>GITHUB_SECRET = Some ''k'', ROOM_ID = Some ''r''\<rparr>"
        "\<lparr>x_github_event = Some ''push'', x_hub_signature_256 = None,
          rawBody = Some ''{}'', body = JObj []\<rparr>"]
  by (simp add: hex_def hex_byte_def)

subsection \<open>The push message\<close>

text \<open>
  C4, as stated, fails: the message of line 129 starts with \<^verbatim>\<open>**Push Event**:\<close>, in
  Markdown bold, not with \<^verbatim>\<open>Push Event:\<close>.
\<close>

theorem push_message_plain_counterexample:
  "format_message (Some ''push'')
     (JObj [(''commits'', JArr [JObj [], JObj []]), (''ref'', JStr ''refs/heads/main''),
            (''pusher'', JObj [(''name'', JStr ''alice'')]), (''compare'', JStr ''u'')])
   \<noteq> Inr (Some ''Push Event: 2 commits pushed to refs/heads/main by alice. Compare: u'')"
  by (simp add: format_message_def push_message_def interp_def commits_length_def
      pusher_name_def and_then_def optget_def nullish_def or_else_def show_int_def
      show_nat_digit)

text \<open>
  C4, amended. For a push event whose payload has an array \<open>commits\<close>, strings \<open>ref\<close> and
  \<open>compare\<close> and an object \<open>pusher\<close> with a string \<open>name\<close>, the message is
  \<^verbatim>\<open>**Push Event**: {len(commits)} commits pushed to {ref} by {pusher.name or 'unknown'}.
  Compare: {compare}\<close>; for commits \<open>[c1, c2]\<close>, ref \<^verbatim>\<open>refs/heads/main\<close>, pusher name
  \<^verbatim>\<open>alice\<close> and compare \<^verbatim>\<open>u\<close> it is
  \<^verbatim>\<open>**Push Event**: 2 commits pushed to refs/heads/main by alice. Compare: u\<close>.
\<close>

theorem push_message_template:
  assumes "map_of kvs ''commits'' = Some (JArr commits)"
    and "map_of kvs ''ref'' = Some (JStr ref)"
    and "map_of kvs ''pusher'' = Some (JObj pusher)"
    and "map_of pusher ''name'' = Some (JStr name)"
    and "map_of kvs ''compare'' = Some (JStr compare)"
  shows "format_message (Some ''push'') (JObj kvs) =
     Inr (Some (''**Push Event**: '' @ show_nat (length commits) @ '' commits pushed to '' @ ref
                @ '' by '' @ (if name = [] then ''unknown'' else name)
                @ ''. Compare: '' @ compare))"
  using assms
  by (simp add: format_message_def push_message_def interp_def commits_length_def
      pusher_name_def and_then_def optget_def nullish_def or_else_length)
    (simp add: or_else_def)

text \<open>The instance of the specification.\<close>

theorem push_message_template_witness:
  "format_message (Some ''push'')
     (JObj [(''commits'', JArr [JObj [], JObj []]), (''ref'', JStr ''refs/heads/main''),
            (''pusher'', JObj [(''name'', JStr ''alice'')]), (''compare'', JStr ''u'')])
   = Inr (Some ''**Push Event**: 2 commits pushed to refs/heads/main by alice. Compare: u'')"
  using push_message_template
    [of "[(''commits'', JArr [JObj [], JObj []]), (''ref'', JStr ''refs/heads/main''),
          (''pusher'', JObj [(''name'', JStr ''alice'')]), (''compare'', JStr ''u'')]"
        "[JObj [], JObj []]" "''refs/heads/main''" "[(''name'', JStr ''alice'')]" "''alice''"
        "''u''"]
  by (simp add: show_nat_digit)

text \<open>
  C9, as stated, fails: a push payload without pusher whose \<open>compare\<close> is an object
  with an own property \<^verbatim>\<open>toString\<close> has an absent pusher name, and formatting it
  throws a TypeError instead of giving a message with \<^verbatim>\<open>unknown\<close>.
\<close>

theorem absent_pusher_faults_counterexample:
  "format_message (Some ''push'')
     (JObj [(''commits'', JArr []), (''ref'', JStr ''refs/heads/x''),
            (''compare'', JObj [(''toString'', JInt 1)])])
   = Inl TypeError"
  by (simp add: format_message_def push_message_def interp_def commits_length_def
      pusher_name_def and_then_def optget_def nullish_def or_else_def show_int_def
      show_nat_digit)

text \<open>
  C9, amended. For every push event payload in which the pusher name is absent (there is
  no \<open>pusher\<close>, it is \<^verbatim>\<open>null\<close>, or it has no \<open>name\<close>) and none of the other three
  interpolated values, \<^verbatim>\<open>commits?.length\<close>, \<^verbatim>\<open>ref\<close> and \<^verbatim>\<open>compare\<close>, is or contains
  (through arrays) an object with an own property \<^verbatim>\<open>toString\<close>, formatting does not
  fault: it gives the message of the push template with the literal \<^verbatim>\<open>unknown\<close> as
  the pusher, between the renderings of the other three values.
\<close>

theorem absent_pusher_renders_unknown:
  assumes "get p ''pusher'' = Inr pusher"
    and "nullish pusher \<or> get pusher ''name'' = Inr JUndefined"
    and "get p ''commits'' = Inr commits" and "optget commits ''length'' = Inr n"
    and "no_own_toString n"
    and "get p ''ref'' = Inr ref" and "no_own_toString ref"
    and "get p ''compare'' = Inr compare" and "no_own_toString compare"
  shows "\<exists>count r c.
           ToString (or_else n (JInt 0)) = Inr count \<and> ToString ref = Inr r
         \<and> ToString compare = Inr c
         \<and> format_message (Some ''push'') p =
             Inr (Some (''**Push Event**: '' @ count @ '' commits pushed to '' @ r
                        @ '' by unknown. Compare: '' @ c))"
proof -
  have "no_own_toString (or_else n (JInt 0))"
    using assms(5) by (simp add: or_else_def)
  then obtain count where count: "ToString (or_else n (JInt 0)) = Inr count"
    using ToString_join_no_own_toString(1) by blast
  obtain r where r: "ToString ref = Inr r"
    using assms(7) ToString_join_no_own_toString(1) by blast
  obtain c where c: "ToString compare = Inr c"
    using assms(9) ToString_join_no_own_toString(1) by blast
  have name: "optget pusher ''name'' = Inr JUndefined"
    using assms(2) by (auto simp: optget_def)
  have "pusher_name p = Inr (JStr ''unknown'')"
    using assms(1) name by (simp add: pusher_name_def and_then_def or_else_def)
  moreover have "commits_length p = Inr (or_else n (JInt 0))"
    using assms(3,4) by (simp add: commits_length_def and_then_def)
  ultimately have "format_message (Some ''push'') p =
      Inr (Some (''**Push Event**: '' @ count @ '' commits pushed to '' @ r
                 @ '' by unknown. Compare: '' @ c))"
    using count r c assms(6,8)
    by (simp add: format_message_def push_message_def interp_def and_then_def)
  with count r c show ?thesis by blast
qed

text \<open>The instance of the specification: no commits and no pusher.\<close>

theorem absent_pusher_renders_unknown_witness:
  "format_message (Some ''push'')
     (JObj [(''commits'', JArr []), (''ref'', JStr ''refs/heads/x''), (''compare'', JStr ''u'')])
   = Inr (Some ''**Push Event**: 0 commits pushed to refs/heads/x by unknown. Compare: u'')"
  using absent_pusher_renders_unknown
    [of "JObj [(''commits'', JArr []), (''ref'', JStr ''refs/heads/x''),
               (''compare'', JStr ''u'')]" JUndefined "JArr []" "JInt 0" "JStr ''refs/heads/x''"
        "JStr ''u''"]
  by (simp add: optget_def nullish_def or_else_def show_int_def show_nat_digit)

text \<open>
  C10, as stated, fails: a payload whose \<open>ref\<close> is an object with an own property
  \<^verbatim>\<open>toString\<close> makes the template literal of the push branch throw a TypeError.
\<close>

theorem push_toString_counterexample:
  "format_message (Some ''push'') (JObj [(''ref'', JObj [(''toString'', JInt 0)])])
   = Inl TypeError"
  by (simp add: format_message_def push_message_def interp_def commits_length_def
      pusher_name_def and_then_def optget_def nullish_def or_else_def show_int_def
      show_nat_digit)

text \<open>
  C10, amended. For every JSON payload in which none of the four interpolated values,
  \<^verbatim>\<open>commits?.length\<close>, \<^verbatim>\<open>ref\<close>, \<^verbatim>\<open>pusher?.name\<close> and \<^verbatim>\<open>compare\<close>, is or contains
  (through arrays) an object with an own property \<^verbatim>\<open>toString\<close>, formatting a push
  event does not raise and gives a message of the push template; absent commits
  render a count of 0, and an absent pusher or an absent, \<^verbatim>\<open>null\<close> or empty pusher
  name renders as \<^verbatim>\<open>unknown\<close>.
\<close>

theorem push_total_on_plain_fields:
  assumes "get p ''commits'' = Inr commits" and "optget commits ''length'' = Inr n"
    and "no_own_toString n"
    and "get p ''ref'' = Inr ref" and "no_own_toString ref"
    and "get p ''pusher'' = Inr pusher" and "optget pusher ''name'' = Inr name"
    and "no_own_toString name"
    and "get p ''compare'' = Inr compare" and "no_own_toString compare"
  shows "\<exists>count r who c.
           format_message (Some ''push'') p =
             Inr (Some (''**Push Event**: '' @ count @ '' commits pushed to '' @ r
                        @ '' by '' @ who @ ''. Compare: '' @ c))
         \<and> (nullish commits \<longrightarrow> count = ''0'')
         \<and> (\<not> truthy name \<longrightarrow> who = ''unknown'')"
proof -
  have cl: "commits_length p = Inr (or_else n (JInt 0))"
    using assms(1,2) by (simp add: commits_length_def and_then_def)
  have pn: "pusher_name p = Inr (or_else name (JStr ''unknown''))"
    using assms(6,7) by (simp add: pusher_name_def and_then_def)
  have "no_own_toString (or_else n (JInt 0))"
    using assms(3) by (simp add: or_else_def)
  from interp_no_own_toString [OF cl this]
  obtain count where count: "interp (commits_length p) = Inr count" by blast
  from interp_no_own_toString [OF assms(4,5)]
  obtain r where r: "interp (get p ''ref'') = Inr r" by blast
  have "no_own_toString (or_else name (JStr ''unknown''))"
    using assms(8) by (simp add: or_else_def)
  from interp_no_own_toString [OF pn this]
  obtain who where who: "interp (pusher_name p) = Inr who" by blast
  from interp_no_own_toString [OF assms(9,10)]
  obtain c where c: "interp (get p ''compare'') = Inr c" by blast
  have m: "format_message (Some ''push'') p =
             Inr (Some (''**Push Event**: '' @ count @ '' commits pushed to '' @ r
                        @ '' by '' @ who @ ''. Compare: '' @ c))"
    using count r who c by (simp add: format_message_def push_message_def and_then_def)
  have c0: "count = ''0''" if "nullish commits"
  proof -
    from that assms(2) have "n = JUndefined" by (simp add: optget_def)
    with count cl show ?thesis
      by (simp add: interp_def and_then_def or_else_def show_int_def show_nat_digit)
  qed
  have w0: "who = ''unknown''" if "\<not> truthy name"
    using that who pn by (simp add: interp_def and_then_def or_else_def)
  from m c0 w0 have
    "format_message (Some ''push'') p =
       Inr (Some (''**Push Event**: '' @ count @ '' commits pushed to '' @ r
                  @ '' by '' @ who @ ''. Compare: '' @ c))
     \<and> (nullish commits \<longrightarrow> count = ''0'')
     \<and> (\<not> truthy name \<longrightarrow> who = ''unknown'')"
    by blast
  then show ?thesis by blast
qed

text \<open>An instance: a payload with none of the four fields.\<close>

theorem push_total_on_plain_fields_witness:
  "nullish JUndefined \<and> \<not> truthy JUndefined
   \<and> (\<exists>r c. format_message (Some ''push'') (JObj [(''action'', JStr ''x'')]) =
             Inr (Some (''**Push Event**: 0 commits pushed to '' @ r
                        @ '' by unknown. Compare: '' @ c)))"
  using push_total_on_plain_fields
    [of "JObj [(''action'', JStr ''x'')]" JUndefined JUndefined JUndefined JUndefined
        JUndefined JUndefined]
  by (simp add: optget_def nullish_def)

subsection \<open>Dispatch\<close>

text \<open>
  C5. For every request that passes the signature check, whose body was parsed as JSON
  (it is an object or an array, not \<^verbatim>\<open>undefined\<close> or \<^verbatim>\<open>null\<close>) and whose event type
  is none of \<^verbatim>\<open>push\<close>, \<^verbatim>\<open>pull_request\<close> and \<^verbatim>\<open>issues\<close>, the handler responds HTTP 200
  with body \<^verbatim>\<open>Event received\<close> and never calls \<^verbatim>\<open>webex.messages.create\<close>.
\<close>

theorem unsupported_event_acknowledged:
  assumes "x_hub_signature_256 req = Some s"
    and "verify_signature hmac (GITHUB_SECRET e) (rawBody req) s = Inr True"
    and "\<not> nullish (body req)"
    and "x_github_event req \<noteq> Some ''push''"
    and "x_github_event req \<noteq> Some ''pull_request''"
    and "x_github_event req \<noteq> Some ''issues''"
  shows "outcome (github_handler hmac create e req) = Responded 200 ''Event received''
       \<and> relay_calls (github_handler hmac create e req) = []"
proof -
  from assms(3) obtain a where "get (body req) ''action'' = Inr a"
    using get_not_nullish by blast
  moreover from assms(4-6) have "format_message (x_github_event req) (body req) = Inr None"
    by (simp add: format_message_def)
  ultimately show ?thesis
    by (simp add: github_handler_valid [OF assms(1,2)] handle_event_def)
qed

text \<open>An instance: a \<^verbatim>\<open>deployment\<close> event, with concatenation as the digest function.\<close>

theorem unsupported_event_acknowledged_witness:
  "outcome (github_handler (\<lambda>key data. key @ data) (\<lambda>room markdown. True)
      \<lparr>GITHUB_SECRET = Some ''k'', ROOM_ID = Some ''r''\<rparr>
      \<lparr>x_github_event = Some ''deployment'',
       x_hub_signature_256 = Some (''sha256='' @ hex ''k{}''),
       rawBody = Some ''{}'', body = JObj []\<rparr>) = Responded 200 ''Event received''
   \<and> relay_calls (github_handler (\<lambda>key data. key @ data) (\<lambda>room markdown. True)
      \<lparr>GITHUB_SECRET = Some ''k'', ROOM_ID = Some ''r''\<rparr>
      \<lparr>x_github_event = Some ''deployment'',
       x_hub_signature_256 = Some (''sha256='' @ hex ''k{}''),
       rawBody = Some ''{}'', body = JObj []\<rparr>) = []"
  using unsupported_event_acknowledged
    [of "\<lparr>x_github_event = Some ''deployment'',
          x_hub_signature_256 = Some (''sha256='' @ hex ''k{}''),
          rawBody = Some ''{}'', body = JObj []\<rparr>"
        "''sha256='' @ hex ''k{}''" "\<lambda>key data. key @ data"
        "\<lparr>GITHUB_SECRET = Some ''k'', ROOM_ID = Some ''r''\<rparr>" "\<lambda>room markdown. True"]
  by (simp add: verify_signature_Some length_hex nullish_def)

text \<open>
  C6, as stated, fails: a \<^verbatim>\<open>pull_request\<close> event with a valid signature and the
  payload \<^verbatim>\<open>{}\<close> is a supported event, yet the handler throws while it formats the
  message, sends no response and makes no call of the relay. The digest function is
  concatenation here; the outcome is the same for any other.
\<close>

theorem incomplete_event_not_processed_counterexample:
  "outcome (github_handler (\<lambda>key data. key @ data) (\<lambda>room markdown. True)
      \<lparr>GITHUB_SECRET = Some ''k'', ROOM_ID = Some ''r''\<rparr>
      \<lparr>x_github_event = Some ''pull_request'',
       x_hub_signature_256 = Some (''sha256='' @ hex ''k{}''),
       rawBody = Some ''{}'', body = JObj []\<rparr>) = Faulted TypeError
   \<and> relay_calls (github_handler (\<lambda>key data. key @ data) (\<lambda>room markdown. True)
      \<lparr>GITHUB_SECRET = Some ''k'', ROOM_ID = Some ''r''\<rparr>
      \<lparr>x_github_event = Some ''pull_request'',
       x_hub_signature_256 = Some (''sha256='' @ hex ''k{}''),
       rawBody = Some ''{}'', body = JObj []\<rparr>) = []"
  by (simp add: github_handler_def verify_signature_Some length_hex handle_event_def
      format_message_def pull_request_message_def interp_def get2_def and_then_def)

text \<open>
  C6, amended. For every request with a valid signature and a supported event type
  whose message is formatted without a fault, the handler calls
  \<^verbatim>\<open>webex.messages.create\<close> exactly once, with the configured room and that message,
  and responds HTTP 200 with body \<^verbatim>\<open>Event processed\<close>, whether the call resolves or
  rejects; a rejection is written to the console and nothing is sent again.
\<close>

theorem supported_event_relayed_once:
  assumes "x_hub_signature_256 req = Some s"
    and "verify_signature hmac (GITHUB_SECRET e) (rawBody req) s = Inr True"
    and "format_message (x_github_event req) (body req) = Inr (Some message)"
  shows "outcome (github_handler hmac create e req) = Responded 200 ''Event processed''
       \<and> relay_calls (github_handler hmac create e req) = [(ROOM_ID e, message)]
       \<and> (Error_posting \<in> set (console (github_handler hmac create e req)))
           = (\<not> create (ROOM_ID e) message)"
proof -
  from format_message_Some_action [OF assms(3)]
  obtain a where "get (body req) ''action'' = Inr a" by blast
  with assms(3) show ?thesis
    by (simp add: github_handler_valid [OF assms(1,2)] handle_event_def)
qed

text \<open>An instance: an \<^verbatim>\<open>issues\<close> event with action \<^verbatim>\<open>opened\<close>, and a relay that rejects.\<close>

theorem supported_event_relayed_once_witness:
  "outcome (github_handler (\<lambda>key data. key @ data) (\<lambda>room markdown. False)
      \<lparr>GITHUB_SECRET = Some ''k'', ROOM_ID = Some ''r''\<rparr>
      \<lparr>x_github_event = Some ''issues'',
       x_hub_signature_256 = Some (''sha256='' @ hex ''k{}''),
       rawBody = Some ''{}'',
       body = JObj [(''action'', JStr ''opened''),
                    (''issue'', JObj [(''number'', JInt 12), (''title'', JStr ''T''),
                                      (''html_url'', JStr ''h'')]),
                    (''sender'', JObj [(''login'', JStr ''bob'')])]\<rparr>)
     = Responded 200 ''Event processed''
   \<and> relay_calls (github_handler (\<lambda>key data. key @ data) (\<lambda>room markdown. False)
      \<lparr>GITHUB_SECRET = Some ''k'', ROOM_ID = Some ''r''\<rparr>
      \<lparr>x_github_event = Some ''issues'',
       x_hub_signature_256 = Some (''sha256='' @ hex ''k{}''),
       rawBody = Some ''{}'',
       body = JObj [(''action'', JStr ''opened''),
                    (''issue'', JObj [(''number'', JInt 12), (''title'', JStr ''T''),
                                      (''html_url'', JStr ''h'')]),
                    (''sender'', JObj [(''login'', JStr ''bob'')])]\<rparr>)
     = [(Some ''r'', ''**Issue opened**: #12 '' @ [CHR 0x22] @ ''T'' @ [CHR 0x22]
                     @ '' by bob. URL: h'')]"
  using supported_event_relayed_once
    [of "\<lparr>x_github_event = Some ''issues'',
          x_hub_signature_256 = Some (''sha256='' @ hex ''k{}''),
          rawBody = Some ''{}'',
          body = JObj [(''action'', JStr ''opened''),
                    (''issue'', JObj [(''number'', JInt 12), (''title'', JStr ''T''),
                                      (''html_url'', JStr ''h'')]),
                    (''sender'', JObj [(''login'', JStr ''bob'')])]\<rparr>"
        "''sha256='' @ hex ''k{}''" "\<lambda>key data. key @ data"
        "\<lparr>GITHUB_SECRET = Some ''k'', ROOM_ID = Some ''r''\<rparr>"
        "''**Issue opened**: #12 '' @ [CHR 0x22] @ ''T'' @ [CHR 0x22] @ '' by bob. URL: h''"
        "\<lambda>room markdown. False"]
  by (simp add: verify_signature_Some length_hex format_message_def issues_message_def interp_def
      get2_def and_then_def show_int_def show_nat.simps)

text \<open>
  C8. For every authenticated \<^verbatim>\<open>pull_request\<close> event whose payload has no
  \<open>pull_request\<close> or no \<open>sender\<close> field, and every authenticated \<^verbatim>\<open>issues\<close> event
  whose payload has no \<open>issue\<close> or no \<open>sender\<close> field, the formatting step throws a
  TypeError that nothing catches: the handler sends no response and calls no relay.
\<close>

theorem incomplete_event_faults:
  assumes "x_hub_signature_256 req = Some s"
    and "verify_signature hmac (GITHUB_SECRET e) (rawBody req) s = Inr True"
    and "(x_github_event req = Some ''pull_request''
          \<and> (get (body req) ''pull_request'' = Inr JUndefined
             \<or> get (body req) ''sender'' = Inr JUndefined))
       \<or> (x_github_event req = Some ''issues''
          \<and> (get (body req) ''issue'' = Inr JUndefined
             \<or> get (body req) ''sender'' = Inr JUndefined))"
  shows "outcome (github_handler hmac create e req) = Faulted TypeError
       \<and> relay_calls (github_handler hmac create e req) = []"
proof -
  from assms(3) have "\<not> nullish (body req)"
    by (auto dest: get_Inr_not_nullish)
  then obtain a where a: "get (body req) ''action'' = Inr a"
    using get_not_nullish by blast
  from assms(3) have "format_message (x_github_event req) (body req) = Inl TypeError"
    by (auto simp: format_message_def and_then_def pull_request_fault issues_fault)
  with a show ?thesis
    by (simp add: github_handler_valid [OF assms(1,2)] handle_event_def)
qed

text \<open>An instance: a \<^verbatim>\<open>pull_request\<close> event with no \<open>pull_request\<close> field.\<close>

theorem incomplete_event_faults_witness:
  "outcome (github_handler (\<lambda>key data. key @ data) (\<lambda>room markdown. True)
      \<lparr>GITHUB_SECRET = Some ''k'', ROOM_ID = Some ''r''\<rparr>
      \<lparr>x_github_event = Some ''pull_request'',
       x_hub_signature_256 = Some (''sha256='' @ hex ''k{}''),
       rawBody = Some ''{}'',
       body = JObj [(''action'', JStr ''opened''), (''number'', JInt 7),
                    (''sender'', JObj [(''login'', JStr ''bob'')])]\<rparr>) = Faulted TypeError
   \<and> relay_calls (github_handler (\<lambda>key data. key @ data) (\<lambda>room markdown. True)
      \<lparr>GITHUB_SECRET = Some ''k'', ROOM_ID = Some ''r''\<rparr>
      \<lparr>x_github_event = Some ''pull_request'',
       x_hub_signature_256 = Some (''sha256='' @ hex ''k{}''),
       rawBody = Some ''{}'',
       body = JObj [(''action'', JStr ''opened''), (''number'', JInt 7),
                    (''sender'', JObj [(''login'', JStr ''bob'')])]\<rparr>) = []"
  using incomplete_event_faults
    [of "\<lparr>x_github_event = Some ''pull_request'',
          x_hub_signature_256 = Some (''sha256='' @ hex ''k{}''),
          rawBody = Some ''{}'',
          body = JObj [(''action'', JStr ''opened''), (''number'', JInt 7),
                       (''sender'', JObj [(''login'', JStr ''bob'')])]\<rparr>"
        "''sha256='' @ hex ''k{}''" "\<lambda>key data. key @ data"
        "\<lparr>GITHUB_SECRET = Some ''k'', ROOM_ID = Some ''r''\<rparr>" "\<lambda>room markdown. True"]
  by (simp add: verify_signature_Some length_hex)

end
